theory Spec2Isabelle
  imports Main "HOL-Library.AList"
begin

section \<open>JavaScript strings as the gateway uses them\<close>

text \<open>
  Header values, tokens, tool names and session identifiers are JavaScript strings, compared
  with \<open>===\<close> and \<open>!==\<close> (exact, case-sensitive equality). They are modelled as
  \<open>string\<close>. A value that may be \<open>undefined\<close> or \<open>null\<close> is a \<open>string option\<close>.
\<close>

definition startsWith :: "string \<Rightarrow> string \<Rightarrow> bool" where
  \<comment> \<open>\<open>s.startsWith(p)\<close>\<close>
  "startsWith s p = (take (length p) s = p)"

fun split_on :: "char \<Rightarrow> string \<Rightarrow> string list" where
  \<comment> \<open>\<open>s.split(sep)\<close> for a one-character separator: empty pieces are kept, and the
      empty string splits into one empty piece\<close>
  "split_on sep [] = [[]]"
| "split_on sep (c # cs) =
     (if c = sep then [] # split_on sep cs
      else (case split_on sep cs of
              [] \<Rightarrow> [[c]]
            | w # ws \<Rightarrow> (c # w) # ws))"

definition at_index :: "'a list \<Rightarrow> nat \<Rightarrow> 'a option" where
  \<comment> \<open>\<open>xs[i]\<close>: \<open>undefined\<close> (here \<open>None\<close>) out of range\<close>
  "at_index xs i = (if i < length xs then Some (xs ! i) else None)"

definition truthy :: "string option \<Rightarrow> bool" where
  \<comment> \<open>a string-or-undefined value in a condition: \<open>undefined\<close>, \<open>null\<close> and the empty
      string are falsy\<close>
  "truthy v = (case v of None \<Rightarrow> False | Some s \<Rightarrow> s \<noteq> [])"

section \<open>Values that cross the gateway\<close>

text \<open>
  JSON values are request bodies, validated parameters and handler results.
\<close>

datatype json =
    JNull
  | JBool bool
  | JNum int
  | JStr string
  | JArr "json list"
  | JObj "(string \<times> json) list"

text \<open>
  A thrown value, as the error middleware looks at it: whether it is an \<open>Error\<close> instance
  (then its \<open>message\<close>), and its \<open>status\<close> property when \<open>typeof err?.status === 'number'\<close>
  (\<open>None\<close> otherwise, also for a thrown value with no such property). \<open>OtherValue\<close> is a
  thrown value that is not an \<open>Error\<close> and that Express takes as an error. \<open>NotAnError\<close> is a
  thrown value that Express's \<open>next\<close> does not take as an error: a falsy value (\<open>undefined\<close>,
  \<open>null\<close>, \<open>0\<close>, the empty string, \<open>false\<close>) or one of its routing signals (the strings
  \<open>route\<close> and \<open>router\<close>); none of these has a numeric \<open>status\<close>.
\<close>

datatype thrown =
    ErrorObject string "int option"
  | OtherValue "int option"
  | NotAnError

fun thrown_status :: "thrown \<Rightarrow> int option" where
  "thrown_status (ErrorObject m st) = st"
| "thrown_status (OtherValue st) = st"
| "thrown_status NotAnError = None"

text \<open>
  The validator's error is a list of issues, each with the path of the field it is about and a
  message. \<open>error.format()\<close> returns a tree that follows the field paths: every node has its own
  list of messages (\<open>_errors\<close>) and one child per field name.
\<close>

datatype zod_issue = Issue (issue_path: "string list") (issue_message: string)

datatype formatted = Formatted "string list" "(string \<times> formatted) list"

fun add_issue :: "string list \<Rightarrow> string \<Rightarrow> formatted \<Rightarrow> formatted" where
  "add_issue [] msg (Formatted es fs) = Formatted (es @ [msg]) fs"
| "add_issue (el # rest) msg (Formatted es fs) =
     Formatted es
       (AList.update el
          (add_issue rest msg (case map_of fs el of None \<Rightarrow> Formatted [] [] | Some n \<Rightarrow> n))
          fs)"

definition zod_format :: "zod_issue list \<Rightarrow> formatted" where
  \<comment> \<open>Modelled from the spec: the schema validator (zod) is a library outside src/; the spec
      asks for "a field-path-indexed list of violations ... mirroring whatever the schema
      validator reports".\<close>
  "zod_format issues =
     foldl (\<lambda>acc i. add_issue (issue_path i) (issue_message i) acc) (Formatted [] []) issues"

fun errors_at :: "string list \<Rightarrow> formatted \<Rightarrow> string list" where
  \<comment> \<open>reading the formatted detail at a field path: \<open>details.a.b._errors\<close>\<close>
  "errors_at [] (Formatted es fs) = es"
| "errors_at (el # rest) (Formatted es fs) =
     (case map_of fs el of None \<Rightarrow> [] | Some n \<Rightarrow> errors_at rest n)"

text \<open>
  Response bodies, one constructor per shape the source writes:
  \<open>res.end()\<close>, \<open>res.send(text)\<close>, \<open>{ error: message }\<close>,
  \<open>{ error: message, details: formatted }\<close>, the tool list of \<open>/api/tools\<close> (name and
  description of each tool; the serialised schema is left out) and any other JSON value.
\<close>

datatype body =
    NoBody
  | Text string
  | ErrorJson string
  | InvalidInputJson string formatted
  | ToolListJson "(string \<times> string) list"
  | Json json

record response =
  status :: int
  body :: body

text \<open>
  What an Express middleware or route handler does with a request: it sends a response, goes
  on to the next handler (\<open>Next\<close>), goes on with an error (\<open>NextError\<close>), or throws while it
  answers (\<open>Throws\<close>). At the end of the chain \<open>Next\<close> means that Express answers 404 itself,
  and \<open>NextError\<close> and \<open>Throws\<close> that Express's built-in error handler answers.
\<close>

datatype outcome = Sent response | Next | NextError thrown | Throws

text \<open>
  \<open>next(error)\<close> with a caught value: Express goes on with the error, unless the value is
  one it does not take as an error; then it goes on as after \<open>next()\<close>.
\<close>

definition next_with :: "thrown \<Rightarrow> outcome" where
  "next_with error = (case error of NotAnError \<Rightarrow> Next | _ \<Rightarrow> NextError error)"

text \<open>
  \<open>res.status(statusCode).json(payload)\<close>: Node refuses a status code below 100 or above 999
  (the call throws), and sends no body with a 1xx, 204 or 304 status.
\<close>

definition res_status_json :: "int \<Rightarrow> body \<Rightarrow> outcome" where
  "res_status_json statusCode payload =
     (if statusCode < 100 \<or> 999 < statusCode then Throws
      else if statusCode < 200 \<or> statusCode = 204 \<or> statusCode = 304
      then Sent \<lparr>status = statusCode, body = NoBody\<rparr>
      else Sent \<lparr>status = statusCode, body = payload\<rparr>)"

section \<open>The catalog\<close>

text \<open>
  \<open>NEON_TOOLS\<close> and \<open>NEON_HANDLERS\<close> come from \<open>tools.js\<close>, which is not among the sources: they
  are parameters. A schema is its \<open>safeParse\<close>: the issues, or the validated data. A handler
  is asynchronous; the model has its settled result: the thrown value or the result.
\<close>

type_synonym schema = "json \<Rightarrow> zod_issue list + json"

type_synonym handler = "json \<Rightarrow> thrown + json"

record tool =
  name :: string
  description :: string
  inputSchema :: schema

record catalog =
  NEON_TOOLS :: "tool list"
  NEON_HANDLERS :: "string \<rightharpoonup> handler"

section \<open>The authentication gate\<close>

text \<open>
  Both gates start with the same expression:
  \<^verbatim>\<open>const token = authHeader && authHeader.startsWith('Bearer ') ? authHeader.split(' ')[1] : null;\<close>
  The argument is \<open>req.headers.authorization\<close>, \<open>None\<close> when the request has no such header.
\<close>

definition bearer_token :: "string option \<Rightarrow> string option" where
  "bearer_token authHeader =
     (case authHeader of
        None \<Rightarrow> None
      | Some h \<Rightarrow>
          if h \<noteq> [] \<and> startsWith h ''Bearer ''
          then at_index (split_on CHR '' '' h) 1
          else None)"

subsection \<open>Requests\<close>

text \<open>
  A request of the streaming server (\<open>http.IncomingMessage\<close>): its method, its
  \<open>Authorization\<close> header and what \<open>new URL(req.url || '', `http://${req.headers.host}`)\<close>
  makes of its URL (\<open>None\<close> when the constructor throws). \<open>searchParams\<close> are the query
  parameters in their order; \<open>searchParams.get\<close> returns the first value of a name.
\<close>

record parsed_url =
  pathname :: string
  searchParams :: "(string \<times> string) list"

record incoming_message =
  http_method :: string
  authorization :: "string option"
  url :: "parsed_url option"

text \<open>
  A request of the Express applications: method, path, \<open>Authorization\<close> header, and what
  the \<open>express.json()\<close> middleware made of the body: the parsed value (\<open>req.body\<close>), or the
  error it passed to \<open>next\<close> (an \<open>Error\<close> with a message and a numeric \<open>status\<close>).
\<close>

record express_request =
  req_method :: string
  req_path :: string
  req_authorization :: "string option"
  req_body :: "(string \<times> int) + json"

subsection \<open>checkAuth (streaming server)\<close>

text \<open>
  \<open>checkAuth\<close> returns a boolean; its \<open>console.warn\<close> lines are the second component.
  \<open>EXPECTED_AUTH_TOKEN\<close> is \<open>process.env.AUTH_TOKEN\<close>, read once at startup.
\<close>

definition checkAuth :: "string option \<Rightarrow> incoming_message \<Rightarrow> bool \<times> string list" where
  "checkAuth EXPECTED_AUTH_TOKEN req =
     (let token = bearer_token (authorization req) in
      if \<not> truthy token then (False, [''Auth Warning: Missing token''])
      else if token \<noteq> EXPECTED_AUTH_TOKEN then (False, [''Auth Warning: Invalid token''])
      else (True, []))"

subsection \<open>authenticateToken (Express server with authentication)\<close>

definition authenticateToken :: "string option \<Rightarrow> express_request \<Rightarrow> outcome \<times> string list" where
  "authenticateToken EXPECTED_AUTH_TOKEN req =
     (let token = bearer_token (req_authorization req) in
      if \<not> truthy token
      then (Sent \<lparr>status = 401, body = ErrorJson ''Unauthorized: Missing token''\<rparr>,
            [''Auth Warning: Missing Authorization header or Bearer prefix.''])
      else if token \<noteq> EXPECTED_AUTH_TOKEN
      then (Sent \<lparr>status = 403, body = ErrorJson ''Forbidden: Invalid token''\<rparr>,
            [''Auth Warning: Invalid token received.''])
      else (Next, []))"

section \<open>The synchronous endpoint\<close>

subsection \<open>handleToolExecution\<close>

text \<open>
  The arguments are \<open>req.params.toolName\<close> and \<open>req.body\<close>. The second component of the
  result lists the handler invocations the function made (the argument of each), in order.
\<close>

definition handleToolExecution :: "catalog \<Rightarrow> string \<Rightarrow> json \<Rightarrow> outcome \<times> json list" where
  "handleToolExecution cat toolName params =
     (case (find (\<lambda>t. name t = toolName) (NEON_TOOLS cat), NEON_HANDLERS cat toolName) of
        (Some toolDefinition, Some handler) \<Rightarrow>
          (case inputSchema toolDefinition params of
             Inl error \<Rightarrow>
               (Sent \<lparr>status = 400,
                      body = InvalidInputJson ''Invalid input parameters.'' (zod_format error)\<rparr>,
                [])
           | Inr validatedParams \<Rightarrow>
               (case handler validatedParams of
                  Inr result \<Rightarrow> (Sent \<lparr>status = 200, body = Json result\<rparr>, [validatedParams])
                | Inl error \<Rightarrow> (next_with error, [validatedParams])))
      | _ \<Rightarrow>
          (Sent \<lparr>status = 404,
                 body = ErrorJson (''Tool '' @ [CHR 0x27] @ toolName @ [CHR 0x27] @ '' not found.'')\<rparr>,
           []))"

subsection \<open>The error-handling middleware\<close>

text \<open>
  The first argument is \<open>res.headersSent\<close>. With the headers already sent the error goes on to
  Express's built-in handler (\<open>NextError\<close>).
\<close>

definition errorMiddleware :: "bool \<Rightarrow> thrown \<Rightarrow> outcome" where
  "errorMiddleware headersSent err =
     (if headersSent then NextError err
      else
        let statusCode = (case thrown_status err of Some n \<Rightarrow> n | None \<Rightarrow> 500);
            message = (case err of ErrorObject m st \<Rightarrow> m | _ \<Rightarrow> ''Internal Server Error'')
        in res_status_json statusCode (ErrorJson message))"

subsection \<open>Routing of the Express applications\<close>

text \<open>
  Paths are matched as the source writes them (Express also accepts another letter case and a
  trailing slash; that is left out). \<open>app.use('/api', ...)\<close> covers \<open>/api\<close> and every path
  below it; \<open>/api/tools/:toolName/execute\<close> binds \<open>req.params.toolName\<close>.
\<close>

definition under_api :: "string \<Rightarrow> bool" where
  "under_api p =
     (case split_on CHR ''/'' p of
        a # b # rest \<Rightarrow> a = [] \<and> b = ''api''
      | _ \<Rightarrow> False)"

definition execute_route :: "string \<Rightarrow> string option" where
  "execute_route p =
     (case split_on CHR ''/'' p of
        [a, b, c, toolName, d] \<Rightarrow>
          if a = [] \<and> b = ''api'' \<and> c = ''tools'' \<and> toolName \<noteq> [] \<and> d = ''execute''
          then Some toolName else None
      | _ \<Rightarrow> None)"

definition banner :: "string \<Rightarrow> body" where
  "banner version = Text (''MCP Server Neon (v'' @ version @ '') is running. Use API endpoints.'')"

definition status_json :: "string \<Rightarrow> string \<Rightarrow> body" where
  "status_json version now =
     Json (JObj [(''status'', JStr ''running''), (''name'', JStr ''mcp-server-neon''),
                 (''version'', JStr version), (''timestamp'', JStr now)])"

text \<open>
  The route \<open>POST /api/tools/:toolName/execute\<close> followed by the error-handling middleware,
  which receives what \<open>handleToolExecution\<close> passes to \<open>next\<close>; no header has been sent then.
\<close>

definition execute_endpoint :: "catalog \<Rightarrow> string \<Rightarrow> json \<Rightarrow> outcome \<times> json list" where
  "execute_endpoint cat toolName params =
     (case handleToolExecution cat toolName params of
        (NextError err, calls) \<Rightarrow> (errorMiddleware False err, calls)
      | r \<Rightarrow> r)"

subsection \<open>The Express application with authentication\<close>

text \<open>
  The middleware chain in the order of registration: \<open>express.json()\<close>, \<open>GET /\<close>,
  \<open>authenticateToken\<close> on \<open>/api\<close>, \<open>GET /api/status\<close>, \<open>GET /api/tools\<close>,
  \<open>POST /api/tools/:toolName/execute\<close>, the error-handling middleware. \<open>version\<close> is
  \<open>packageJson.version\<close> and \<open>now\<close> is \<open>new Date().toISOString()\<close>. A result \<open>Next\<close> means that
  no route matched (Express answers 404 itself).
\<close>

definition app ::
  "string option \<Rightarrow> catalog \<Rightarrow> string \<Rightarrow> string \<Rightarrow> express_request \<Rightarrow> outcome \<times> json list" where
  "app EXPECTED_AUTH_TOKEN cat version now req =
     (case req_body req of
        Inl (message, st) \<Rightarrow> (errorMiddleware False (ErrorObject message (Some st)), [])
      | Inr params \<Rightarrow>
          if req_method req = ''GET'' \<and> req_path req = ''/''
          then (Sent \<lparr>status = 200, body = banner version\<rparr>, [])
          else if under_api (req_path req)
          then
            (case fst (authenticateToken EXPECTED_AUTH_TOKEN req) of
               Sent r \<Rightarrow> (Sent r, [])
             | NextError err \<Rightarrow> (errorMiddleware False err, [])
             | Next \<Rightarrow>
                 if req_method req = ''GET'' \<and> req_path req = ''/api/status''
                 then (Sent \<lparr>status = 200, body = status_json version now\<rparr>, [])
                 else if req_method req = ''GET'' \<and> req_path req = ''/api/tools''
                 then (Sent \<lparr>status = 200,
                              body = ToolListJson (map (\<lambda>t. (name t, description t)) (NEON_TOOLS cat))\<rparr>,
                       [])
                 else
                   (case (if req_method req = ''POST'' then execute_route (req_path req) else None) of
                      Some toolName \<Rightarrow> execute_endpoint cat toolName params
                    | None \<Rightarrow> (Next, [])))
          else (Next, []))"

subsection \<open>The Express application of src/index.ts\<close>

text \<open>
  The chain of \<open>src/index.ts\<close>: \<open>express.json()\<close>, \<open>GET /\<close>, \<open>GET /api/status\<close>,
  \<open>POST /api/tools/:toolName/execute\<close>, the error-handling middleware. It registers no
  authentication middleware.
\<close>

definition index_app ::
  "catalog \<Rightarrow> string \<Rightarrow> string \<Rightarrow> express_request \<Rightarrow> outcome \<times> json list" where
  "index_app cat version now req =
     (case req_body req of
        Inl (message, st) \<Rightarrow> (errorMiddleware False (ErrorObject message (Some st)), [])
      | Inr params \<Rightarrow>
          if req_method req = ''GET'' \<and> req_path req = ''/''
          then (Sent \<lparr>status = 200, body = banner version\<rparr>, [])
          else if req_method req = ''GET'' \<and> req_path req = ''/api/status''
          then (Sent \<lparr>status = 200, body = status_json version now\<rparr>, [])
          else
            (case (if req_method req = ''POST'' then execute_route (req_path req) else None) of
               Some toolName \<Rightarrow> execute_endpoint cat toolName params
             | None \<Rightarrow> (Next, [])))"

section \<open>Startup\<close>

text \<open>
  What an entry point meets when it is started: the environment variables, the command line,
  \<open>package.json\<close> (\<open>None\<close> when reading or parsing it throws), whether one of the imported
  modules that are not among the sources (\<open>tools.js\<close>, \<open>resources.js\<close>, \<open>polyfills.js\<close>, the
  libraries) throws when it is evaluated, and whether \<open>handleInit\<close> throws.

  An entry point is an ES module: its imports are evaluated before its own first statement.
  One of them is \<open>initConfig.ts\<close>, whose top-level code reads \<open>package.json\<close>; the entry point
  reads the same file again later.
\<close>

record process_env =
  AUTH_TOKEN :: "string option"
  NEON_API_KEY :: "string option"
  argv :: "string list"
  packageJson_version :: "string option"
  imports_throw :: bool
  handleInit_throws :: bool

definition imports_evaluate :: "process_env \<Rightarrow> bool" where
  \<comment> \<open>the imports of an entry point evaluate without an exception\<close>
  "imports_evaluate env = (\<not> imports_throw env \<and> packageJson_version env \<noteq> None)"

text \<open>
  How starting an entry point ends: \<open>process.exit(code)\<close>, an uncaught exception, the server
  listening, or the module finishing with no server started.
\<close>

datatype startup = Exit nat | Uncaught | Listening | Idle

text \<open>
  \<open>parseArgs\<close> of \<open>initConfig.ts\<close>: the exit code, or \<open>command\<close>, \<open>neonApiKey\<close> and
  \<open>executablePath\<close>.
\<close>

definition or_empty :: "string option \<Rightarrow> string" where
  \<comment> \<open>\<open>v || ''\<close>\<close>
  "or_empty v = (case v of None \<Rightarrow> [] | Some x \<Rightarrow> x)"

definition parseArgs :: "process_env \<Rightarrow> nat + (string \<times> string \<times> string)" where
  "parseArgs env =
     (let args = argv env;
          executablePath = at_index args 1;
          command = at_index args 2
      in if command = Some ''start''
         then Inr (''start'', or_empty (NEON_API_KEY env), or_empty executablePath)
         else if command = Some ''init''
         then (if length args < 4 then Inl 1
               else Inr (''init'', or_empty (at_index args 3), or_empty executablePath))
         else Inl 1)"

definition handlers_bound :: "catalog \<Rightarrow> bool" where
  \<comment> \<open>the registration loop: it throws at the first tool of \<open>NEON_TOOLS\<close> with no handler\<close>
  "handlers_bound cat = list_all (\<lambda>t. NEON_HANDLERS cat (name t) \<noteq> None) (NEON_TOOLS cat)"

text \<open>
  Starting \<open>src/index.ts\<close> (the bare Express entry point has the same sequence): the
  imports, \<open>package.json\<close>, \<open>parseArgs\<close>, the command check, \<open>init\<close>, the registration of the
  tools, then \<open>main()\<close> unconditionally. \<open>AUTH_TOKEN\<close> is not read.
\<close>

definition index_startup :: "process_env \<Rightarrow> catalog \<Rightarrow> startup" where
  "index_startup env cat =
     (if \<not> imports_evaluate env then Uncaught
      else if packageJson_version env = None then Uncaught
      else
        (case parseArgs env of
           Inl code \<Rightarrow> Exit code
         | Inr (command, neonApiKey, executablePath) \<Rightarrow>
             if command \<notin> set [''init'', ''start''] then Exit 1
             else if command = ''init''
             then (if handleInit_throws env then Uncaught else Exit 0)
             else if \<not> handlers_bound cat then Uncaught
             else Listening))"

text \<open>
  Starting the streaming server or the Express server with authentication (the same sequence
  in both): the imports, then the check of \<open>AUTH_TOKEN\<close> as the first statement of the
  module, then as above; \<open>main()\<close> runs when the command is \<open>start\<close>.
\<close>

definition gated_startup :: "process_env \<Rightarrow> catalog \<Rightarrow> startup" where
  "gated_startup env cat =
     (if \<not> imports_evaluate env then Uncaught
      else if \<not> truthy (AUTH_TOKEN env) then Exit 1
      else if packageJson_version env = None then Uncaught
      else
        (case parseArgs env of
           Inl code \<Rightarrow> Exit code
         | Inr (command, neonApiKeyFromArgs, executablePath) \<Rightarrow>
             if command \<notin> set [''init'', ''start''] then Exit 1
             else if command = ''init''
             then (if handleInit_throws env then Uncaught else Exit 0)
             else if \<not> handlers_bound cat then Uncaught
             else if command = ''start'' then Listening
             else Idle))"

section \<open>The streaming server\<close>

text \<open>
  The request handler is an \<open>async\<close> function on a single-threaded event loop: it runs
  without interruption up to an \<open>await\<close>, and the rest runs as a later turn of the loop, when
  the awaited promise has settled. Other requests are served in between. The model has one
  step per turn.

  A connection (\<open>conn\<close>) names one request/response pair and the transport object
  constructed for it. The transport is an object of the SDK: the model keeps its
  \<open>sessionId\<close> (generated by the SDK's constructor, so an input of the model), whether
  the promise of \<open>start()\<close> has resolved (\<open>started\<close>) and whether \<open>close()\<close> was called.
\<close>

type_synonym conn = nat

record transport =
  sessionId :: string
  started :: bool
  closed :: bool

text \<open>Where a suspended handler waits.\<close>

datatype await_point =
    AwaitStart    \<comment> \<open>\<open>await transport.start()\<close>\<close>
  | AwaitConnect  \<comment> \<open>\<open>await mcpServer.connect(transport)\<close>\<close>
  | AwaitPost     \<comment> \<open>\<open>await transport.handlePostMessage(req, res)\<close>\<close>

text \<open>
  \<open>activeConnections\<close> is the \<open>Map\<close> from session identifiers to transports; \<open>transports\<close> is
  the store of the transport objects; \<open>pending\<close> holds the suspended handlers;
  \<open>closeListeners\<close> are the connections whose request has the \<open>'close'\<close> listener attached.
\<close>

record server_state =
  activeConnections :: "string \<rightharpoonup> conn"
  transports :: "conn \<rightharpoonup> transport"
  pending :: "conn \<rightharpoonup> await_point"
  closeListeners :: "conn set"

definition initial_state :: server_state where
  "initial_state =
     \<lparr>activeConnections = Map.empty, transports = Map.empty, pending = Map.empty,
      closeListeners = {}\<rparr>"

text \<open>
  The turns of the loop. \<open>Request c req sid\<close>: request \<open>req\<close> arrives on connection \<open>c\<close>;
  \<open>sid\<close> is the identifier the SDK gives a transport constructed in this turn. A rejected
  promise carries \<open>res.headersSent\<close> and \<open>res.writableEnded\<close> as the \<open>catch\<close> block finds
  them. \<open>ReqClose c\<close> is the \<open>'close'\<close> event of the request of \<open>c\<close>.
\<close>

datatype event =
    Request conn incoming_message string
  | StartResolved conn
  | StartRejected conn bool bool
  | ConnectResolved conn
  | ConnectRejected conn bool bool
  | PostResolved conn
  | PostRejected conn bool bool
  | ReqClose conn

text \<open>
  The first turn of the request handler, up to its first \<open>await\<close> or \<open>return\<close>. The result is
  the response the handler has written (\<open>None\<close> when it has written none: the response is
  left to the transport, or the URL constructor threw) and the new state. The three CORS
  headers are set on every response and are not part of the model.
\<close>

definition httpServer_handler ::
  "string option \<Rightarrow> server_state \<Rightarrow> conn \<Rightarrow> incoming_message \<Rightarrow> string
     \<Rightarrow> response option \<times> server_state" where
  "httpServer_handler EXPECTED_AUTH_TOKEN s c req sid =
     (if http_method req = ''OPTIONS'' then (Some \<lparr>status = 204, body = NoBody\<rparr>, s)
      else if \<not> fst (checkAuth EXPECTED_AUTH_TOKEN req)
      then (Some \<lparr>status = 401, body = ErrorJson ''Unauthorized''\<rparr>, s)
      else
        (case url req of
           None \<Rightarrow> (None, s)
         | Some u \<Rightarrow>
             if pathname u = ''/mcp-sse'' \<and> http_method req = ''GET''
             then
               (None,
                s\<lparr>transports := (transports s)(c \<mapsto> \<lparr>sessionId = sid, started = False, closed = False\<rparr>),
                  activeConnections := (activeConnections s)(sid \<mapsto> c),
                  pending := (pending s)(c \<mapsto> AwaitStart)\<rparr>)
             else if pathname u = ''/mcp-post'' \<and> http_method req = ''POST''
             then
               (let sessionId = map_of (searchParams u) ''sessionId'' in
                if \<not> truthy sessionId
                then (Some \<lparr>status = 400, body = ErrorJson ''Missing sessionId query parameter''\<rparr>, s)
                else
                  (case activeConnections s (or_empty sessionId) of
                     None \<Rightarrow>
                       (Some \<lparr>status = 404, body = ErrorJson ''Session not found or inactive''\<rparr>, s)
                   | Some transport \<Rightarrow> (None, s\<lparr>pending := (pending s)(c \<mapsto> AwaitPost)\<rparr>)))
             else (Some \<lparr>status = 404, body = ErrorJson ''Not Found''\<rparr>, s)))"

text \<open>
  The \<open>catch\<close> blocks: unless the response has ended they call \<open>res.writeHead(500, ...)\<close> and
  \<open>res.end(...)\<close>. With the headers already sent (by the transport) \<open>writeHead\<close> throws and
  nothing is written. Neither block touches \<open>activeConnections\<close>.
\<close>

definition catch_response :: "bool \<Rightarrow> bool \<Rightarrow> string \<Rightarrow> response option" where
  "catch_response headersSent writableEnded message =
     (if writableEnded then None
      else if headersSent then None
      else Some \<lparr>status = 500, body = ErrorJson message\<rparr>)"

text \<open>
  The \<open>'close'\<close> listener of a connection: \<open>activeConnections.delete(sessionId)\<close> and
  \<open>transport.close()\<close>, with the \<open>sessionId\<close> and the transport of that connection.
\<close>

definition on_close :: "server_state \<Rightarrow> conn \<Rightarrow> server_state" where
  "on_close s c =
     (case transports s c of
        None \<Rightarrow> s
      | Some t \<Rightarrow>
          s\<lparr>activeConnections := (activeConnections s)(sessionId t := None),
            transports := (transports s)(c \<mapsto> t\<lparr>closed := True\<rparr>)\<rparr>)"

text \<open>One turn of the event loop. A turn for a handler that does not wait there does nothing.\<close>

fun step :: "string option \<Rightarrow> server_state \<Rightarrow> event \<Rightarrow> response option \<times> server_state" where
  "step E s (Request c req sid) = httpServer_handler E s c req sid"
| "step E s (StartResolved c) =
     (if pending s c = Some AwaitStart
      then (None,
            s\<lparr>transports := (case transports s c of
                                None \<Rightarrow> transports s
                              | Some t \<Rightarrow> (transports s)(c \<mapsto> t\<lparr>started := True\<rparr>)),
              pending := (pending s)(c \<mapsto> AwaitConnect)\<rparr>)
      else (None, s))"
| "step E s (StartRejected c headersSent writableEnded) =
     (if pending s c = Some AwaitStart
      then (catch_response headersSent writableEnded ''Failed to establish SSE connection'',
            s\<lparr>pending := (pending s)(c := None)\<rparr>)
      else (None, s))"
| "step E s (ConnectResolved c) =
     (if pending s c = Some AwaitConnect
      then (None, s\<lparr>pending := (pending s)(c := None), closeListeners := insert c (closeListeners s)\<rparr>)
      else (None, s))"
| "step E s (ConnectRejected c headersSent writableEnded) =
     (if pending s c = Some AwaitConnect
      then (catch_response headersSent writableEnded ''Failed to establish SSE connection'',
            s\<lparr>pending := (pending s)(c := None)\<rparr>)
      else (None, s))"
| "step E s (PostResolved c) =
     (if pending s c = Some AwaitPost
      then (None, s\<lparr>pending := (pending s)(c := None)\<rparr>)
      else (None, s))"
| "step E s (PostRejected c headersSent writableEnded) =
     (if pending s c = Some AwaitPost
      then (catch_response headersSent writableEnded ''Failed to process message'',
            s\<lparr>pending := (pending s)(c := None)\<rparr>)
      else (None, s))"
| "step E s (ReqClose c) =
     (if c \<in> closeListeners s then (None, on_close s c) else (None, s))"

definition run :: "string option \<Rightarrow> server_state \<Rightarrow> event list \<Rightarrow> server_state" where
  "run E s evs = foldl (\<lambda>st ev. snd (step E st ev)) s evs"




section \<open>A catalog for the worked examples\<close>

text \<open>
  The tools of the repository are not among the sources. The examples use the two tools of
  the spec's scenarios, with a handler given as a parameter.
\<close>

definition run_sql_schema :: schema where
  \<comment> \<open>Modelled from the spec: the input schema of \<open>run_sql\<close> (in \<open>tools.js\<close>, not among the
      sources), "where schema requires a string" for the field \<open>sql\<close>.\<close>
  "run_sql_schema raw =
     (case raw of
        JObj fs \<Rightarrow>
          (case map_of fs ''sql'' of
             None \<Rightarrow> Inl [Issue [''sql''] ''Required'']
           | Some (JStr q) \<Rightarrow> Inr raw
           | Some v \<Rightarrow> Inl [Issue [''sql''] ''Expected string''])
      | _ \<Rightarrow> Inl [Issue [] ''Expected object''])"

definition list_projects_schema :: schema where
  \<comment> \<open>Modelled from the spec: the input schema of \<open>list_projects\<close> (in \<open>tools.js\<close>, not among
      the sources), "a valid schema requiring none".\<close>
  "list_projects_schema raw =
     (case raw of
        JObj fs \<Rightarrow> Inr raw
      | _ \<Rightarrow> Inl [Issue [] ''Expected object''])"

definition example_catalog :: "handler \<Rightarrow> catalog" where
  "example_catalog h =
     \<lparr>NEON_TOOLS =
        [\<lparr>name = ''list_projects'', description = ''List the projects'',
          inputSchema = list_projects_schema\<rparr>,
         \<lparr>name = ''run_sql'', description = ''Run a SQL statement'',
          inputSchema = run_sql_schema\<rparr>],
      NEON_HANDLERS = [''list_projects'' \<mapsto> h, ''run_sql'' \<mapsto> h]\<rparr>"

section \<open>Lemmas on token extraction\<close>

lemma split_on_ne: "split_on sep s \<noteq> []"
  by (induction s) (simp_all split: list.splits)

lemma hd_split_on: "hd (split_on sep s) = takeWhile (\<lambda>c. c \<noteq> sep) s"
proof (induction s)
  case Nil
  show ?case by simp
next
  case (Cons a s)
  obtain w ws where w: "split_on sep s = w # ws"
    using split_on_ne [of sep s] by (cases "split_on sep s") simp_all
  with Cons show ?case by simp
qed

lemma split_on_append_sep:
  "sep \<notin> set p \<Longrightarrow> split_on sep (p @ sep # t) = p # split_on sep t"
proof (induction p)
  case Nil
  show ?case by simp
next
  case (Cons a p)
  then have "a \<noteq> sep" and "split_on sep (p @ sep # t) = p # split_on sep t"
    by auto
  then show ?case by simp
qed

lemma at_index_second: "at_index (x # y # ys) (Suc 0) = Some y"
  by (simp add: at_index_def)

lemma bearer_token_prefixed:
  "bearer_token (Some (''Bearer '' @ t)) = Some (takeWhile (\<lambda>c. c \<noteq> CHR '' '') t)"
proof -
  obtain w ws where w: "split_on CHR '' '' t = w # ws"
    using split_on_ne [of "CHR '' ''" t] by (cases "split_on CHR '' '' t") simp_all
  have "split_on CHR '' '' (''Bearer'' @ CHR '' '' # t) = ''Bearer'' # split_on CHR '' '' t"
    by (rule split_on_append_sep) simp
  then have "at_index (split_on CHR '' '' (''Bearer '' @ t)) 1 = Some w"
    using w by (simp add: at_index_second)
  moreover have "w = takeWhile (\<lambda>c. c \<noteq> CHR '' '') t"
    using hd_split_on [of "CHR '' ''" t] w by simp
  ultimately show ?thesis
    by (simp add: bearer_token_def startsWith_def)
qed

lemma bearer_token_not_prefixed:
  "\<not> startsWith h ''Bearer '' \<Longrightarrow> bearer_token (Some h) = None"
  by (simp add: bearer_token_def)

lemma startsWith_iff: "startsWith h p \<longleftrightarrow> (\<exists>t. h = p @ t)"
  unfolding startsWith_def by (metis append_eq_conv_conj append_take_drop_id)

section \<open>Lemmas on the gates\<close>

lemma bearer_token_accept_iff:
  "bearer_token a = Some secret \<longleftrightarrow>
     (\<exists>t. a = Some (''Bearer '' @ t) \<and> takeWhile (\<lambda>c. c \<noteq> CHR '' '') t = secret)"
proof (cases a)
  case None
  then show ?thesis by (simp add: bearer_token_def)
next
  case (Some h)
  show ?thesis
  proof (cases "startsWith h ''Bearer ''")
    case True
    then obtain t where t: "h = ''Bearer '' @ t"
      using startsWith_iff by blast
    show ?thesis
      unfolding Some t bearer_token_prefixed by auto
  next
    case False
    then have "bearer_token a = None"
      using Some by (simp add: bearer_token_not_prefixed)
    moreover have "\<not> (\<exists>t. a = Some (''Bearer '' @ t) \<and> takeWhile (\<lambda>c. c \<noteq> CHR '' '') t = secret)"
      using False Some startsWith_iff by auto
    ultimately show ?thesis by simp
  qed
qed

lemma checkAuth_accepts_iff:
  "fst (checkAuth E req) \<longleftrightarrow> truthy (bearer_token (authorization req)) \<and> bearer_token (authorization req) = E"
  by (simp add: checkAuth_def Let_def)

lemma authenticateToken_next_iff:
  "fst (authenticateToken E xreq) = Next \<longleftrightarrow>
     truthy (bearer_token (req_authorization xreq)) \<and> bearer_token (req_authorization xreq) = E"
  by (simp add: authenticateToken_def Let_def)

lemma truthy_Some: "truthy (Some x) \<longleftrightarrow> x \<noteq> []"
  by (simp add: truthy_def)

section \<open>Lemmas on the formatted validation detail and on routes\<close>

lemma add_issue_own: "msg \<in> set (errors_at p (add_issue p msg n))"
proof (induction p arbitrary: n)
  case Nil
  show ?case by (cases n) simp
next
  case (Cons el rest)
  show ?case by (cases n) (simp add: update_conv' Cons.IH)
qed

lemma add_issue_keeps: "m \<in> set (errors_at q n) \<Longrightarrow> m \<in> set (errors_at q (add_issue p msg n))"
proof (induction p arbitrary: q n)
  case Nil
  then show ?case by (cases n; cases q) simp_all
next
  case (Cons el rest)
  note IH = Cons.IH and prem = Cons.prems
  obtain es fs where n: "n = Formatted es fs" by (cases n)
  show ?case
  proof (cases q)
    case Nil
    with prem n show ?thesis by simp
  next
    case q: (Cons k q')
    show ?thesis
    proof (cases "k = el")
      case True
      show ?thesis
      proof (cases "map_of fs el")
        case None
        with prem n q True show ?thesis by simp
      next
        case (Some n')
        with prem n q True have "m \<in> set (errors_at q' n')" by simp
        from IH [OF this] show ?thesis
          using n q True Some by (simp add: update_conv')
      qed
    next
      case False
      with prem n q show ?thesis
        by (simp add: update_conv')
    qed
  qed
qed

lemma foldl_add_issue_keeps:
  "m \<in> set (errors_at q acc) \<Longrightarrow>
   m \<in> set (errors_at q (foldl (\<lambda>acc i. add_issue (issue_path i) (issue_message i) acc) acc issues))"
  by (induction issues arbitrary: acc) (simp_all add: add_issue_keeps)

lemma foldl_add_issue_has:
  "i \<in> set issues \<Longrightarrow>
   issue_message i \<in> set (errors_at (issue_path i)
      (foldl (\<lambda>acc i. add_issue (issue_path i) (issue_message i) acc) acc issues))"
proof (induction issues arbitrary: acc)
  case Nil
  then show ?case by simp
next
  case (Cons j issues)
  show ?case
  proof (cases "i = j")
    case True
    then show ?thesis
      using foldl_add_issue_keeps [OF add_issue_own] by simp
  next
    case False
    with Cons show ?thesis by simp
  qed
qed

lemma zod_format_indexed:
  "i \<in> set issues \<Longrightarrow> issue_message i \<in> set (errors_at (issue_path i) (zod_format issues))"
  unfolding zod_format_def by (rule foldl_add_issue_has)

lemma split_on_no_sep: "sep \<notin> set p \<Longrightarrow> split_on sep p = [p]"
proof (induction p)
  case Nil
  show ?case by simp
next
  case (Cons a p)
  then show ?case by auto
qed

lemma execute_route_path:
  assumes "toolName \<noteq> []" "CHR ''/'' \<notin> set toolName"
  shows "execute_route (''/api/tools/'' @ toolName @ ''/execute'') = Some toolName"
proof -
  have 1: "split_on CHR ''/'' (toolName @ CHR ''/'' # ''execute'') = toolName # split_on CHR ''/'' ''execute''"
    using assms(2) by (rule split_on_append_sep)
  have 2: "split_on CHR ''/'' ''execute'' = [''execute'']"
    by (rule split_on_no_sep) simp
  have "split_on CHR ''/'' (''/api/tools/'' @ toolName @ ''/execute'')
        = [[], ''api'', ''tools'', toolName, ''execute'']"
    using 1 2 by simp
  then show ?thesis
    using assms(1) by (simp add: execute_route_def)
qed

lemma under_api_execute_path: "under_api (''/api/tools/'' @ rest)"
  by (simp add: under_api_def split: list.splits)

lemma under_api_not_root: "under_api p \<Longrightarrow> p \<noteq> ''/''"
  by (auto simp: under_api_def)

section \<open>Lemmas on the endpoints\<close>

lemma app_gate:
  assumes "req_body req = Inr params" "under_api (req_path req)"
    and "fst (authenticateToken E req) = Sent r"
  shows "app E cat v now req = (Sent r, [])"
  using assms under_api_not_root [OF assms(2)] by (simp add: app_def)

lemma app_execute:
  assumes "req_body req = Inr params" "req_method req = ''POST''"
    and "req_path req = ''/api/tools/'' @ toolName @ ''/execute''"
    and "toolName \<noteq> []" "CHR ''/'' \<notin> set toolName"
    and "fst (authenticateToken E req) = Next"
  shows "app E cat v now req = execute_endpoint cat toolName params"
  using assms execute_route_path [OF assms(4,5)] under_api_execute_path [of "toolName @ ''/execute''"]
  by (simp add: app_def)

lemma index_app_execute:
  assumes "req_body req = Inr params" "req_method req = ''POST''"
    and "req_path req = ''/api/tools/'' @ toolName @ ''/execute''"
    and "toolName \<noteq> []" "CHR ''/'' \<notin> set toolName"
  shows "index_app cat v now req = execute_endpoint cat toolName params"
  using assms execute_route_path [OF assms(4,5)]
  by (simp add: index_app_def)

lemma execute_endpoint_invalid:
  assumes "find (\<lambda>t. name t = toolName) (NEON_TOOLS cat) = Some toolDefinition"
    and "NEON_HANDLERS cat toolName = Some handler"
    and "inputSchema toolDefinition params = Inl issues"
  shows "execute_endpoint cat toolName params =
           (Sent \<lparr>status = 400,
                  body = InvalidInputJson ''Invalid input parameters.'' (zod_format issues)\<rparr>, [])"
  using assms by (simp add: execute_endpoint_def handleToolExecution_def)

lemma execute_endpoint_throw:
  assumes "find (\<lambda>t. name t = toolName) (NEON_TOOLS cat) = Some toolDefinition"
    and "NEON_HANDLERS cat toolName = Some handler"
    and "inputSchema toolDefinition params = Inr validated"
    and "handler validated = Inl err"
  shows "execute_endpoint cat toolName params =
           (case err of
              NotAnError \<Rightarrow> Next
            | _ \<Rightarrow> res_status_json (case thrown_status err of Some n \<Rightarrow> n | None \<Rightarrow> 500)
                     (ErrorJson (case err of ErrorObject m st \<Rightarrow> m
                                 | _ \<Rightarrow> ''Internal Server Error'')),
            [validated])"
  using assms
  by (cases err)
     (simp_all add: execute_endpoint_def handleToolExecution_def errorMiddleware_def next_with_def)

lemma res_status_json_error_class:
  "400 \<le> n \<Longrightarrow> n \<le> 599 \<Longrightarrow> res_status_json n payload = Sent \<lparr>status = n, body = payload\<rparr>"
  by (simp add: res_status_json_def)

lemma authenticateToken_missing:
  "\<not> truthy (bearer_token (req_authorization req)) \<Longrightarrow>
   authenticateToken E req =
     (Sent \<lparr>status = 401, body = ErrorJson ''Unauthorized: Missing token''\<rparr>,
      [''Auth Warning: Missing Authorization header or Bearer prefix.''])"
  by (simp add: authenticateToken_def)

lemma authenticateToken_invalid:
  "truthy (bearer_token (req_authorization req)) \<Longrightarrow> bearer_token (req_authorization req) \<noteq> E \<Longrightarrow>
   authenticateToken E req =
     (Sent \<lparr>status = 403, body = ErrorJson ''Forbidden: Invalid token''\<rparr>,
      [''Auth Warning: Invalid token received.''])"
  by (simp add: authenticateToken_def)

lemma checkAuth_missing:
  "\<not> truthy (bearer_token (authorization req)) \<Longrightarrow>
   checkAuth E req = (False, [''Auth Warning: Missing token''])"
  by (simp add: checkAuth_def)

lemma handler_rejects:
  "http_method req \<noteq> ''OPTIONS'' \<Longrightarrow> \<not> fst (checkAuth E req) \<Longrightarrow>
   httpServer_handler E s c req sid = (Some \<lparr>status = 401, body = ErrorJson ''Unauthorized''\<rparr>, s)"
  by (simp add: httpServer_handler_def)

lemma handler_options:
  "http_method req = ''OPTIONS'' \<Longrightarrow>
   httpServer_handler E s c req sid = (Some \<lparr>status = 204, body = NoBody\<rparr>, s)"
  by (simp add: httpServer_handler_def)

section \<open>Lemmas on the streaming server\<close>



section \<open>The claims about the authentication gate\<close>

text \<open>
  Claim C9. A request whose \<open>Authorization\<close> header is present but does not start with the
  literal prefix \<open>Bearer \<close> (a Basic credential, a bare token) is classified as a missing
  credential by both gates: \<open>checkAuth\<close> takes its "missing token" branch, and
  \<open>authenticateToken\<close> answers 401 "missing token", not 403.
\<close>

theorem non_bearer_header_counts_as_missing:
  assumes "\<not> startsWith h ''Bearer ''"
  shows "(authorization req = Some h \<longrightarrow>
            checkAuth E req = (False, [''Auth Warning: Missing token'']))
       \<and> (req_authorization xreq = Some h \<longrightarrow>
            authenticateToken E xreq =
              (Sent \<lparr>status = 401, body = ErrorJson ''Unauthorized: Missing token''\<rparr>,
               [''Auth Warning: Missing Authorization header or Bearer prefix.'']))"
  using assms
  by (auto simp: checkAuth_missing authenticateToken_missing bearer_token_not_prefixed truthy_def)

theorem non_bearer_header_counts_as_missing_witness:
  "\<not> startsWith ''Basic dXNlcjpwYXNz'' ''Bearer ''
   \<and> checkAuth (Some ''s3cret'')
        \<lparr>http_method = ''GET'', authorization = Some ''Basic dXNlcjpwYXNz'', url = None\<rparr>
       = (False, [''Auth Warning: Missing token''])
   \<and> authenticateToken (Some ''s3cret'')
        \<lparr>req_method = ''GET'', req_path = ''/api/status'',
         req_authorization = Some ''s3cret'', req_body = Inr (JObj [])\<rparr>
       = (Sent \<lparr>status = 401, body = ErrorJson ''Unauthorized: Missing token''\<rparr>,
          [''Auth Warning: Missing Authorization header or Bearer prefix.''])"
proof -
  have a: "\<not> startsWith ''Basic dXNlcjpwYXNz'' ''Bearer ''"
    and b: "\<not> startsWith ''s3cret'' ''Bearer ''"
    by (simp_all add: startsWith_def)
  show ?thesis
    using a
      non_bearer_header_counts_as_missing [OF a, of
        "\<lparr>http_method = ''GET'', authorization = Some ''Basic dXNlcjpwYXNz'', url = None\<rparr>"
        "Some ''s3cret''" "\<lparr>req_method = ''GET'', req_path = ''/api/status'',
         req_authorization = Some ''Basic dXNlcjpwYXNz'', req_body = Inr (JObj [])\<rparr>"]
      non_bearer_header_counts_as_missing [OF b, of
        "\<lparr>http_method = ''GET'', authorization = Some ''s3cret'', url = None\<rparr>"
        "Some ''s3cret''" "\<lparr>req_method = ''GET'', req_path = ''/api/status'',
         req_authorization = Some ''s3cret'', req_body = Inr (JObj [])\<rparr>"]
    by simp
qed

text \<open>
  Claim C4, as amended. The token the gates compare is the piece of the header between the
  prefix \<open>Bearer \<close> and the next space (the rest of the header when there is no further
  space). With a non-empty configured secret (the startup check guarantees it), a gate accepts
  if and only if the header starts with \<open>Bearer \<close> and that piece equals the secret. So for a
  supplied token with no space in it, acceptance holds precisely when the token equals the
  secret: a partial or case-mismatched value, and a value extended by anything but a space, is
  rejected.
\<close>

theorem gate_accepts_iff_first_segment_is_secret:
  assumes "secret \<noteq> []"
  shows "(fst (checkAuth (Some secret) req) \<longleftrightarrow>
            (\<exists>t. authorization req = Some (''Bearer '' @ t)
                 \<and> takeWhile (\<lambda>c. c \<noteq> CHR '' '') t = secret))
       \<and> (fst (authenticateToken (Some secret) xreq) = Next \<longleftrightarrow>
            (\<exists>t. req_authorization xreq = Some (''Bearer '' @ t)
                 \<and> takeWhile (\<lambda>c. c \<noteq> CHR '' '') t = secret))
       \<and> (\<forall>t. CHR '' '' \<notin> set t \<and> authorization req = Some (''Bearer '' @ t) \<longrightarrow>
              (fst (checkAuth (Some secret) req) \<longleftrightarrow> t = secret))
       \<and> (\<forall>t. CHR '' '' \<notin> set t \<and> req_authorization xreq = Some (''Bearer '' @ t) \<longrightarrow>
              (fst (authenticateToken (Some secret) xreq) = Next \<longleftrightarrow> t = secret))"
proof -
  have tr: "\<And>a. truthy (bearer_token a) \<and> bearer_token a = Some secret
                \<longleftrightarrow> bearer_token a = Some secret"
    using assms by (auto simp: truthy_Some)
  have c: "fst (checkAuth (Some secret) req) \<longleftrightarrow>
            (\<exists>t. authorization req = Some (''Bearer '' @ t)
                 \<and> takeWhile (\<lambda>c. c \<noteq> CHR '' '') t = secret)"
    unfolding checkAuth_accepts_iff tr by (rule bearer_token_accept_iff)
  have x: "fst (authenticateToken (Some secret) xreq) = Next \<longleftrightarrow>
            (\<exists>t. req_authorization xreq = Some (''Bearer '' @ t)
                 \<and> takeWhile (\<lambda>c. c \<noteq> CHR '' '') t = secret)"
    unfolding authenticateToken_next_iff tr by (rule bearer_token_accept_iff)
  have nosp: "\<And>t. CHR '' '' \<notin> set t \<Longrightarrow> takeWhile (\<lambda>c. c \<noteq> CHR '' '') t = t"
    by (rule takeWhile_eq_all_conv [THEN iffD2]) auto
  have c': "\<And>t. CHR '' '' \<notin> set t \<Longrightarrow> authorization req = Some (''Bearer '' @ t) \<Longrightarrow>
              (fst (checkAuth (Some secret) req) \<longleftrightarrow> t = secret)"
    unfolding c by (simp add: nosp)
  have x': "\<And>t. CHR '' '' \<notin> set t \<Longrightarrow> req_authorization xreq = Some (''Bearer '' @ t) \<Longrightarrow>
              (fst (authenticateToken (Some secret) xreq) = Next \<longleftrightarrow> t = secret)"
    unfolding x by (simp add: nosp)
  from c x c' x' show ?thesis by blast
qed

theorem gate_accepts_iff_first_segment_is_secret_witness:
  "''abc'' \<noteq> []
   \<and> fst (checkAuth (Some ''abc'')
        \<lparr>http_method = ''GET'', authorization = Some ''Bearer abc'', url = None\<rparr>)
   \<and> \<not> fst (checkAuth (Some ''abc'')
        \<lparr>http_method = ''GET'', authorization = Some ''Bearer ABC'', url = None\<rparr>)
   \<and> fst (authenticateToken (Some ''abc'')
        \<lparr>req_method = ''GET'', req_path = ''/api/status'',
         req_authorization = Some ''Bearer ab'', req_body = Inr (JObj [])\<rparr>) \<noteq> Next
   \<and> fst (authenticateToken (Some ''abc'')
        \<lparr>req_method = ''GET'', req_path = ''/api/status'',
         req_authorization = Some ''Bearer abcd'', req_body = Inr (JObj [])\<rparr>) \<noteq> Next"
proof -
  have ne: "''abc'' \<noteq> []" by simp
  show ?thesis
    using
      gate_accepts_iff_first_segment_is_secret [OF ne, of
        "\<lparr>http_method = ''GET'', authorization = Some ''Bearer abc'', url = None\<rparr>"
        "\<lparr>req_method = ''GET'', req_path = ''/api/status'',
         req_authorization = Some ''Bearer ab'', req_body = Inr (JObj [])\<rparr>"]
      gate_accepts_iff_first_segment_is_secret [OF ne, of
        "\<lparr>http_method = ''GET'', authorization = Some ''Bearer ABC'', url = None\<rparr>"
        "\<lparr>req_method = ''GET'', req_path = ''/api/status'',
         req_authorization = Some ''Bearer abcd'', req_body = Inr (JObj [])\<rparr>"]
    by simp
qed

text \<open>
  The claim as stated fails: with the secret \<open>abc\<close>, the header \<open>Bearer abc def\<close> carries
  the extended value \<open>abc def\<close> and both gates accept it.
\<close>

theorem extended_credential_accepted:
  "''abc def'' \<noteq> ''abc''
   \<and> fst (checkAuth (Some ''abc'')
        \<lparr>http_method = ''GET'', authorization = Some ''Bearer abc def'', url = None\<rparr>)
   \<and> fst (authenticateToken (Some ''abc'')
        \<lparr>req_method = ''GET'', req_path = ''/api/status'',
         req_authorization = Some ''Bearer abc def'', req_body = Inr (JObj [])\<rparr>) = Next"
  by (simp add: checkAuth_def authenticateToken_def bearer_token_def startsWith_def
      at_index_def truthy_def)

text \<open>
  Claim C2, as amended. The token a gate extracts from a request is the text of its
  \<open>Authorization\<close> header between the prefix \<open>Bearer \<close> and the next space (the rest of the
  header when there is no further space); a gate extracts no token when there is no header,
  when the header does not start with \<open>Bearer \<close>, or when that text is empty. On the Express
  server with authentication, every request to a path under \<open>/api\<close> whose body the JSON body
  parser accepted is answered 401 when the gate extracts no token and 403 when the token it
  extracts differs from the configured secret, whatever its method and route, and no handler
  is invoked. On the streaming server every request other than \<open>OPTIONS\<close> from which the gate
  extracts no token, or a token that differs from the secret, is answered 401 (never 403),
  whatever its URL, and the server state is unchanged.
\<close>

theorem credential_rejections_before_routing:
  "(req_body xreq = Inr params \<and> under_api (req_path xreq) \<longrightarrow>
      (\<not> truthy (bearer_token (req_authorization xreq)) \<longrightarrow>
         app E cat v now xreq =
           (Sent \<lparr>status = 401, body = ErrorJson ''Unauthorized: Missing token''\<rparr>, []))
    \<and> (truthy (bearer_token (req_authorization xreq))
         \<and> bearer_token (req_authorization xreq) \<noteq> E \<longrightarrow>
         app E cat v now xreq =
           (Sent \<lparr>status = 403, body = ErrorJson ''Forbidden: Invalid token''\<rparr>, [])))
   \<and> (http_method req \<noteq> ''OPTIONS''
        \<and> (\<not> truthy (bearer_token (authorization req)) \<or> bearer_token (authorization req) \<noteq> E) \<longrightarrow>
        httpServer_handler E s c req sid =
          (Some \<lparr>status = 401, body = ErrorJson ''Unauthorized''\<rparr>, s))
   \<and> bearer_token None = None
   \<and> (\<forall>h. \<not> startsWith h ''Bearer '' \<longrightarrow> bearer_token (Some h) = None)
   \<and> (\<forall>t. bearer_token (Some (''Bearer '' @ t)) = Some (takeWhile (\<lambda>c. c \<noteq> CHR '' '') t))"
proof -
  have a: "app E cat v now xreq =
           (Sent \<lparr>status = 401, body = ErrorJson ''Unauthorized: Missing token''\<rparr>, [])"
    if "req_body xreq = Inr params" "under_api (req_path xreq)"
       "\<not> truthy (bearer_token (req_authorization xreq))"
    using that by (intro app_gate [where params = params]) (simp_all add: authenticateToken_missing)
  have b: "app E cat v now xreq =
           (Sent \<lparr>status = 403, body = ErrorJson ''Forbidden: Invalid token''\<rparr>, [])"
    if "req_body xreq = Inr params" "under_api (req_path xreq)"
       "truthy (bearer_token (req_authorization xreq))" "bearer_token (req_authorization xreq) \<noteq> E"
    using that by (intro app_gate [where params = params]) (simp_all add: authenticateToken_invalid)
  have c: "httpServer_handler E s c req sid =
          (Some \<lparr>status = 401, body = ErrorJson ''Unauthorized''\<rparr>, s)"
    if "http_method req \<noteq> ''OPTIONS''"
       "\<not> truthy (bearer_token (authorization req)) \<or> bearer_token (authorization req) \<noteq> E"
    using that by (intro handler_rejects) (auto simp: checkAuth_accepts_iff)
  have d: "bearer_token None = None"
    by (simp add: bearer_token_def)
  from a b c d bearer_token_not_prefixed bearer_token_prefixed show ?thesis by blast
qed

theorem credential_rejections_before_routing_witness:
  "app (Some ''s3cret'') (example_catalog Inr) ''0.1.0'' ''2025-01-01T00:00:00.000Z''
      \<lparr>req_method = ''POST'', req_path = ''/api/tools/run_sql/execute'',
       req_authorization = None, req_body = Inr (JObj [(''sql'', JStr ''select 1'')])\<rparr>
     = (Sent \<lparr>status = 401, body = ErrorJson ''Unauthorized: Missing token''\<rparr>, [])
   \<and> app (Some ''s3cret'') (example_catalog Inr) ''0.1.0'' ''2025-01-01T00:00:00.000Z''
      \<lparr>req_method = ''POST'', req_path = ''/api/tools/run_sql/execute'',
       req_authorization = Some ''Bearer wrong'', req_body = Inr (JObj [(''sql'', JStr ''select 1'')])\<rparr>
     = (Sent \<lparr>status = 403, body = ErrorJson ''Forbidden: Invalid token''\<rparr>, [])
   \<and> httpServer_handler (Some ''s3cret'') initial_state 0
      \<lparr>http_method = ''GET'', authorization = None,
       url = Some \<lparr>pathname = ''/mcp-sse'', searchParams = []\<rparr>\<rparr> ''sid-1''
     = (Some \<lparr>status = 401, body = ErrorJson ''Unauthorized''\<rparr>, initial_state)"
proof -
  have u: "under_api ''/api/tools/run_sql/execute''"
    using under_api_execute_path [of "''run_sql/execute''"] by simp
  have t: "bearer_token (Some ''Bearer wrong'') = Some ''wrong''"
    using bearer_token_prefixed [of "''wrong''"] by simp
  have n: "bearer_token None = None"
    by (simp add: bearer_token_def)
  show ?thesis
    using u t n
      credential_rejections_before_routing [of
        "\<lparr>req_method = ''POST'', req_path = ''/api/tools/run_sql/execute'',
          req_authorization = None, req_body = Inr (JObj [(''sql'', JStr ''select 1'')])\<rparr>"
        "JObj [(''sql'', JStr ''select 1'')]" "Some ''s3cret''" "example_catalog Inr"
        "''0.1.0''" "''2025-01-01T00:00:00.000Z''"
        "\<lparr>http_method = ''GET'', authorization = None,
          url = Some \<lparr>pathname = ''/mcp-sse'', searchParams = []\<rparr>\<rparr>"
        initial_state 0 "''sid-1''"]
      credential_rejections_before_routing [of
        "\<lparr>req_method = ''POST'', req_path = ''/api/tools/run_sql/execute'',
          req_authorization = Some ''Bearer wrong'', req_body = Inr (JObj [(''sql'', JStr ''select 1'')])\<rparr>"
        "JObj [(''sql'', JStr ''select 1'')]" "Some ''s3cret''" "example_catalog Inr"
        "''0.1.0''" "''2025-01-01T00:00:00.000Z''"
        "\<lparr>http_method = ''GET'', authorization = None,
          url = Some \<lparr>pathname = ''/mcp-sse'', searchParams = []\<rparr>\<rparr>"
        initial_state 0 "''sid-1''"]
    by (simp add: truthy_def)
qed

text \<open>
  The claim as stated fails on the streaming server: a \<open>GET /mcp-sse\<close> with the credential
  \<open>wrong\<close>, where the secret is \<open>s3cret\<close>, is answered 401 and not 403.
\<close>

theorem wrong_credential_gets_401_on_stream_server:
  "bearer_token (Some ''Bearer wrong'') = Some ''wrong''
   \<and> ''wrong'' \<noteq> ''s3cret''
   \<and> fst (httpServer_handler (Some ''s3cret'') initial_state 0
        \<lparr>http_method = ''GET'', authorization = Some ''Bearer wrong'',
         url = Some \<lparr>pathname = ''/mcp-sse'', searchParams = []\<rparr>\<rparr> ''sid-1'')
     = Some \<lparr>status = 401, body = ErrorJson ''Unauthorized''\<rparr>"
  by (simp add: httpServer_handler_def checkAuth_def bearer_token_def startsWith_def
      at_index_def truthy_def)

section \<open>The claim about startup\<close>

text \<open>
  Claim C3, as amended. When \<open>AUTH_TOKEN\<close> is unset or empty, the streaming server and the
  Express server with authentication never serve a request: once their imports have been
  evaluated (one of them reads \<open>package.json\<close>), the first statement of the module exits
  with code 1; when an import throws, the process ends with an uncaught exception instead.
  The entry point \<open>src/index.ts\<close> (the bare Express entry point has the same top-level code)
  has no authentication: how it starts does not depend on \<open>AUTH_TOKEN\<close>.
\<close>

theorem gated_entry_points_refuse_to_start:
  assumes "\<not> truthy (AUTH_TOKEN env)"
  shows "(gated_startup env cat = Exit 1 \<or> gated_startup env cat = Uncaught)
       \<and> (imports_evaluate env \<longrightarrow> gated_startup env cat = Exit 1)
       \<and> (\<not> imports_evaluate env \<longrightarrow> gated_startup env cat = Uncaught)
       \<and> index_startup (env\<lparr>AUTH_TOKEN := a\<rparr>) cat = index_startup env cat"
proof -
  have "parseArgs (env\<lparr>AUTH_TOKEN := a\<rparr>) = parseArgs env"
    by (simp add: parseArgs_def Let_def)
  moreover have "imports_evaluate (env\<lparr>AUTH_TOKEN := a\<rparr>) = imports_evaluate env"
    by (simp add: imports_evaluate_def)
  ultimately have i: "index_startup (env\<lparr>AUTH_TOKEN := a\<rparr>) cat = index_startup env cat"
    by (simp add: index_startup_def)
  have g: "gated_startup env cat = (if imports_evaluate env then Exit 1 else Uncaught)"
    using assms by (simp add: gated_startup_def)
  show ?thesis
    unfolding g using i by simp
qed

theorem gated_entry_points_refuse_to_start_witness:
  "\<not> truthy None
   \<and> gated_startup \<lparr>AUTH_TOKEN = None, NEON_API_KEY = Some ''key'',
        argv = [''node'', ''dist/index.js'', ''start''], packageJson_version = Some ''0.1.0'',
        imports_throw = False, handleInit_throws = False\<rparr> (example_catalog Inr) = Exit 1
   \<and> gated_startup \<lparr>AUTH_TOKEN = Some [], NEON_API_KEY = Some ''key'',
        argv = [''node'', ''dist/index.js'', ''start''], packageJson_version = Some ''0.1.0'',
        imports_throw = False, handleInit_throws = False\<rparr> (example_catalog Inr) = Exit 1
   \<and> gated_startup \<lparr>AUTH_TOKEN = None, NEON_API_KEY = Some ''key'',
        argv = [''node'', ''dist/index.js'', ''start''], packageJson_version = None,
        imports_throw = False, handleInit_throws = False\<rparr> (example_catalog Inr) = Uncaught"
proof -
  have n: "\<not> truthy None" and e: "\<not> truthy (Some [])"
    by (simp_all add: truthy_def)
  show ?thesis
    using n
      gated_entry_points_refuse_to_start [of
        "\<lparr>AUTH_TOKEN = None, NEON_API_KEY = Some ''key'',
        argv = [''node'', ''dist/index.js'', ''start''], packageJson_version = Some ''0.1.0'',
        imports_throw = False, handleInit_throws = False\<rparr>" "example_catalog Inr" None]
      gated_entry_points_refuse_to_start [of
        "\<lparr>AUTH_TOKEN = Some [], NEON_API_KEY = Some ''key'',
        argv = [''node'', ''dist/index.js'', ''start''], packageJson_version = Some ''0.1.0'',
        imports_throw = False, handleInit_throws = False\<rparr>" "example_catalog Inr" None]
      gated_entry_points_refuse_to_start [of
        "\<lparr>AUTH_TOKEN = None, NEON_API_KEY = Some ''key'',
        argv = [''node'', ''dist/index.js'', ''start''], packageJson_version = None,
        imports_throw = False, handleInit_throws = False\<rparr>" "example_catalog Inr" None]
    by (simp add: truthy_def imports_evaluate_def)
qed

text \<open>
  The claim as stated fails for the entry point \<open>src/index.ts\<close>: with no \<open>AUTH_TOKEN\<close> it
  listens, and it executes a tool for a request that carries no credential.
\<close>

theorem index_entry_point_serves_without_secret:
  "index_startup \<lparr>AUTH_TOKEN = None, NEON_API_KEY = Some ''key'',
        argv = [''node'', ''dist/index.js'', ''start''], packageJson_version = Some ''0.1.0'',
        imports_throw = False, handleInit_throws = False\<rparr> (example_catalog Inr) = Listening
   \<and> index_app (example_catalog Inr) ''0.1.0'' ''2025-01-01T00:00:00.000Z''
      \<lparr>req_method = ''POST'', req_path = ''/api/tools/run_sql/execute'',
       req_authorization = None, req_body = Inr (JObj [(''sql'', JStr ''select 1'')])\<rparr>
     = (Sent \<lparr>status = 200, body = Json (JObj [(''sql'', JStr ''select 1'')])\<rparr>,
        [JObj [(''sql'', JStr ''select 1'')]])"
  by (simp add: index_startup_def imports_evaluate_def parseArgs_def at_index_def or_empty_def
      handlers_bound_def index_app_def execute_route_def execute_endpoint_def handleToolExecution_def
      example_catalog_def run_sql_schema_def)

section \<open>The claims about the synchronous endpoint\<close>

text \<open>
  Claim C5, as amended. When the handler of a registered tool throws, the synchronous
  invocation endpoint (on the Express server with authentication and on that of
  \<open>src/index.ts\<close> alike) has invoked the handler exactly once (no retry), and it holds no
  session registry and no other state: the answer is a function of the request. When the
  thrown value is one that Express takes as an error, the error middleware calls
  \<open>res.status(n).json({ error: message })\<close> where \<open>n\<close> is the thrown value's numeric \<open>status\<close>
  if it has one and 500 otherwise, and \<open>message\<close> is the thrown \<open>Error\<close>'s message
  (\<open>Internal Server Error\<close> when the thrown value is not an \<open>Error\<close>). So a thrown \<open>Error\<close>
  with no numeric \<open>status\<close> is answered 500 with exactly its message, and a thrown value with a
  \<open>status\<close> from 400 to 599 is answered with that status. A thrown value that Express does
  not take as an error (a falsy one) is answered by no route.
\<close>

theorem handler_failure_response:
  assumes "req_body xreq = Inr params" "req_method xreq = ''POST''"
    and "req_path xreq = ''/api/tools/'' @ toolName @ ''/execute''"
    and "toolName \<noteq> []" "CHR ''/'' \<notin> set toolName"
    and "find (\<lambda>t. name t = toolName) (NEON_TOOLS cat) = Some toolDefinition"
    and "NEON_HANDLERS cat toolName = Some handler"
    and "inputSchema toolDefinition params = Inr validated"
    and "handler validated = Inl err"
  shows "snd (index_app cat v now xreq) = [validated]
       \<and> (fst (authenticateToken E xreq) = Next \<longrightarrow>
            app E cat v now xreq = index_app cat v now xreq)
       \<and> (err \<noteq> NotAnError \<longrightarrow>
            fst (index_app cat v now xreq) =
              res_status_json (case thrown_status err of Some n \<Rightarrow> n | None \<Rightarrow> 500)
                (ErrorJson (case err of ErrorObject m st \<Rightarrow> m | _ \<Rightarrow> ''Internal Server Error'')))
       \<and> (err = NotAnError \<longrightarrow> fst (index_app cat v now xreq) = Next)
       \<and> (\<forall>m. err = ErrorObject m None \<longrightarrow>
            index_app cat v now xreq = (Sent \<lparr>status = 500, body = ErrorJson m\<rparr>, [validated]))
       \<and> (\<forall>m n. err = ErrorObject m (Some n) \<and> 400 \<le> n \<and> n \<le> 599 \<longrightarrow>
            index_app cat v now xreq = (Sent \<lparr>status = n, body = ErrorJson m\<rparr>, [validated]))
       \<and> (err = OtherValue None \<longrightarrow>
            index_app cat v now xreq =
              (Sent \<lparr>status = 500, body = ErrorJson ''Internal Server Error''\<rparr>, [validated]))
       \<and> (\<forall>n. err = OtherValue (Some n) \<and> 400 \<le> n \<and> n \<le> 599 \<longrightarrow>
            index_app cat v now xreq =
              (Sent \<lparr>status = n, body = ErrorJson ''Internal Server Error''\<rparr>, [validated]))"
proof -
  have i: "index_app cat v now xreq = execute_endpoint cat toolName params"
    using assms(1-5) by (rule index_app_execute)
  have a: "app E cat v now xreq = execute_endpoint cat toolName params"
    if "fst (authenticateToken E xreq) = Next"
    using assms(1-5) that by (rule app_execute)
  note e = execute_endpoint_throw [OF assms(6-9)]
  have 1: "snd (index_app cat v now xreq) = [validated]"
    unfolding i e by simp
  have 2: "fst (authenticateToken E xreq) = Next \<longrightarrow>
            app E cat v now xreq = index_app cat v now xreq"
    using i a by simp
  have 3: "err \<noteq> NotAnError \<longrightarrow>
            fst (index_app cat v now xreq) =
              res_status_json (case thrown_status err of Some n \<Rightarrow> n | None \<Rightarrow> 500)
                (ErrorJson (case err of ErrorObject m st \<Rightarrow> m | _ \<Rightarrow> ''Internal Server Error''))"
    unfolding i e by (cases err) simp_all
  have 4: "err = NotAnError \<longrightarrow> fst (index_app cat v now xreq) = Next"
    unfolding i e by simp
  have 5: "\<forall>m. err = ErrorObject m None \<longrightarrow>
            index_app cat v now xreq = (Sent \<lparr>status = 500, body = ErrorJson m\<rparr>, [validated])"
    unfolding i e by (simp add: res_status_json_def)
  have 6: "\<forall>m n. err = ErrorObject m (Some n) \<and> 400 \<le> n \<and> n \<le> 599 \<longrightarrow>
            index_app cat v now xreq = (Sent \<lparr>status = n, body = ErrorJson m\<rparr>, [validated])"
    unfolding i e by (simp add: res_status_json_error_class)
  have 7: "err = OtherValue None \<longrightarrow>
            index_app cat v now xreq =
              (Sent \<lparr>status = 500, body = ErrorJson ''Internal Server Error''\<rparr>, [validated])"
    unfolding i e by (simp add: res_status_json_def)
  have 8: "\<forall>n. err = OtherValue (Some n) \<and> 400 \<le> n \<and> n \<le> 599 \<longrightarrow>
            index_app cat v now xreq =
              (Sent \<lparr>status = n, body = ErrorJson ''Internal Server Error''\<rparr>, [validated])"
    unfolding i e by (simp add: res_status_json_error_class)
  from 1 2 3 4 5 6 7 8 show ?thesis by blast
qed

theorem handler_failure_response_witness:
  "index_app (example_catalog (\<lambda>p. Inl (ErrorObject ''connection refused'' None)))
      ''0.1.0'' ''2025-01-01T00:00:00.000Z''
      \<lparr>req_method = ''POST'', req_path = ''/api/tools/list_projects/execute'',
       req_authorization = Some ''Bearer s3cret'', req_body = Inr (JObj [])\<rparr>
     = (Sent \<lparr>status = 500, body = ErrorJson ''connection refused''\<rparr>, [JObj []])
   \<and> app (Some ''s3cret'') (example_catalog (\<lambda>p. Inl (ErrorObject ''connection refused'' None)))
      ''0.1.0'' ''2025-01-01T00:00:00.000Z''
      \<lparr>req_method = ''POST'', req_path = ''/api/tools/list_projects/execute'',
       req_authorization = Some ''Bearer s3cret'', req_body = Inr (JObj [])\<rparr>
     = (Sent \<lparr>status = 500, body = ErrorJson ''connection refused''\<rparr>, [JObj []])
   \<and> index_app (example_catalog (\<lambda>p. Inl (ErrorObject ''too many requests'' (Some 429))))
      ''0.1.0'' ''2025-01-01T00:00:00.000Z''
      \<lparr>req_method = ''POST'', req_path = ''/api/tools/list_projects/execute'',
       req_authorization = Some ''Bearer s3cret'', req_body = Inr (JObj [])\<rparr>
     = (Sent \<lparr>status = 429, body = ErrorJson ''too many requests''\<rparr>, [JObj []])"
proof -
  have t: "bearer_token (Some ''Bearer s3cret'') = Some ''s3cret''"
    using bearer_token_prefixed [of "''s3cret''"] by simp
  show ?thesis
    using t
      handler_failure_response [of
        "\<lparr>req_method = ''POST'', req_path = ''/api/tools/list_projects/execute'',
          req_authorization = Some ''Bearer s3cret'', req_body = Inr (JObj [])\<rparr>"
        "JObj []" "''list_projects''"
        "example_catalog (\<lambda>p. Inl (ErrorObject ''connection refused'' None))"
        "\<lparr>name = ''list_projects'', description = ''List the projects'',
          inputSchema = list_projects_schema\<rparr>"
        "\<lambda>p. Inl (ErrorObject ''connection refused'' None)"
        "JObj []" "ErrorObject ''connection refused'' None"
        "''0.1.0''" "''2025-01-01T00:00:00.000Z''" "Some ''s3cret''"]
      handler_failure_response [of
        "\<lparr>req_method = ''POST'', req_path = ''/api/tools/list_projects/execute'',
          req_authorization = Some ''Bearer s3cret'', req_body = Inr (JObj [])\<rparr>"
        "JObj []" "''list_projects''"
        "example_catalog (\<lambda>p. Inl (ErrorObject ''too many requests'' (Some 429)))"
        "\<lparr>name = ''list_projects'', description = ''List the projects'',
          inputSchema = list_projects_schema\<rparr>"
        "\<lambda>p. Inl (ErrorObject ''too many requests'' (Some 429))"
        "JObj []" "ErrorObject ''too many requests'' (Some 429)"
        "''0.1.0''" "''2025-01-01T00:00:00.000Z''" "Some ''s3cret''"]
    by (simp add: example_catalog_def list_projects_schema_def authenticateToken_def truthy_def)
qed

text \<open>
  The claim as stated fails: a thrown \<open>Error\<close> that carries \<open>status = 404\<close> is answered 404,
  and a thrown value that is not an \<open>Error\<close> is answered with a fixed message.
\<close>

theorem handler_failure_with_status_is_not_500:
  "app (Some ''s3cret'') (example_catalog (\<lambda>p. Inl (ErrorObject ''project not found'' (Some 404))))
      ''0.1.0'' ''2025-01-01T00:00:00.000Z''
      \<lparr>req_method = ''POST'', req_path = ''/api/tools/list_projects/execute'',
       req_authorization = Some ''Bearer s3cret'', req_body = Inr (JObj [])\<rparr>
     = (Sent \<lparr>status = 404, body = ErrorJson ''project not found''\<rparr>, [JObj []])
   \<and> app (Some ''s3cret'') (example_catalog (\<lambda>p. Inl (OtherValue None)))
      ''0.1.0'' ''2025-01-01T00:00:00.000Z''
      \<lparr>req_method = ''POST'', req_path = ''/api/tools/list_projects/execute'',
       req_authorization = Some ''Bearer s3cret'', req_body = Inr (JObj [])\<rparr>
     = (Sent \<lparr>status = 500, body = ErrorJson ''Internal Server Error''\<rparr>, [JObj []])"
  by (simp add: app_def under_api_def authenticateToken_def bearer_token_def startsWith_def
      at_index_def truthy_def execute_route_def execute_endpoint_def handleToolExecution_def
      errorMiddleware_def next_with_def res_status_json_def example_catalog_def
      list_projects_schema_def)

text \<open>
  Claim C6. For a known tool and a raw input that fails the tool's input schema, the
  synchronous invocation endpoint answers 400 with the error \<open>Invalid input parameters.\<close>
  and a detail indexed by field path: the message of every issue stands in the detail at the
  path of the field it is about. The handler is not invoked (the list of invocations is
  empty). For \<open>run_sql\<close> with the input \<open>{ "sql": 123 }\<close> the detail has the violation at the
  path \<open>sql\<close>.
\<close>

theorem invalid_input_response:
  assumes "req_body xreq = Inr params" "req_method xreq = ''POST''"
    and "req_path xreq = ''/api/tools/'' @ toolName @ ''/execute''"
    and "toolName \<noteq> []" "CHR ''/'' \<notin> set toolName"
    and "find (\<lambda>t. name t = toolName) (NEON_TOOLS cat) = Some toolDefinition"
    and "NEON_HANDLERS cat toolName = Some handler"
    and "inputSchema toolDefinition params = Inl issues"
  shows "index_app cat v now xreq =
           (Sent \<lparr>status = 400,
                  body = InvalidInputJson ''Invalid input parameters.'' (zod_format issues)\<rparr>, [])
       \<and> (fst (authenticateToken E xreq) = Next \<longrightarrow>
            app E cat v now xreq =
              (Sent \<lparr>status = 400,
                     body = InvalidInputJson ''Invalid input parameters.'' (zod_format issues)\<rparr>, []))
       \<and> (\<forall>i \<in> set issues.
            issue_message i \<in> set (errors_at (issue_path i) (zod_format issues)))"
proof -
  have i: "index_app cat v now xreq = execute_endpoint cat toolName params"
    using assms(1-5) by (rule index_app_execute)
  have a: "app E cat v now xreq = execute_endpoint cat toolName params"
    if "fst (authenticateToken E xreq) = Next"
    using assms(1-5) that by (rule app_execute)
  have e: "execute_endpoint cat toolName params =
           (Sent \<lparr>status = 400,
                  body = InvalidInputJson ''Invalid input parameters.'' (zod_format issues)\<rparr>, [])"
    using assms(6-8) by (rule execute_endpoint_invalid)
  show ?thesis
    using i a e zod_format_indexed by simp
qed

theorem invalid_input_response_witness:
  "app (Some ''s3cret'') (example_catalog Inr) ''0.1.0'' ''2025-01-01T00:00:00.000Z''
      \<lparr>req_method = ''POST'', req_path = ''/api/tools/run_sql/execute'',
       req_authorization = Some ''Bearer s3cret'', req_body = Inr (JObj [(''sql'', JNum 123)])\<rparr>
     = (Sent \<lparr>status = 400,
             body = InvalidInputJson ''Invalid input parameters.''
                      (Formatted [] [(''sql'', Formatted [''Expected string''] [])])\<rparr>, [])
   \<and> errors_at [''sql''] (zod_format [Issue [''sql''] ''Expected string'']) = [''Expected string'']"
proof -
  have t: "bearer_token (Some ''Bearer s3cret'') = Some ''s3cret''"
    using bearer_token_prefixed [of "''s3cret''"] by simp
  show ?thesis
    using t
      invalid_input_response [of
        "\<lparr>req_method = ''POST'', req_path = ''/api/tools/run_sql/execute'',
          req_authorization = Some ''Bearer s3cret'', req_body = Inr (JObj [(''sql'', JNum 123)])\<rparr>"
        "JObj [(''sql'', JNum 123)]" "''run_sql''"
        "example_catalog Inr"
        "\<lparr>name = ''run_sql'', description = ''Run a SQL statement'',
          inputSchema = run_sql_schema\<rparr>"
        Inr "[Issue [''sql''] ''Expected string'']"
        "''0.1.0''" "''2025-01-01T00:00:00.000Z''" "Some ''s3cret''"]
    by (simp add: example_catalog_def run_sql_schema_def authenticateToken_def truthy_def
        zod_format_def)
qed

section \<open>The claims about the streaming server\<close>

text \<open>
  Claim C10. Every \<open>OPTIONS\<close> request to the streaming server is answered 204 with an empty
  body and leaves the state unchanged, whatever its \<open>Authorization\<close> header: two \<open>OPTIONS\<close>
  requests that differ only in their credential get the same answer, since the handler
  returns before it calls \<open>checkAuth\<close>.
\<close>

theorem options_answered_without_gate:
  assumes "http_method req = ''OPTIONS''"
  shows "httpServer_handler E s c req sid = (Some \<lparr>status = 204, body = NoBody\<rparr>, s)
       \<and> httpServer_handler E s c (req\<lparr>authorization := a\<rparr>) sid
           = httpServer_handler E s c (req\<lparr>authorization := b\<rparr>) sid"
  using assms by (simp add: handler_options)

theorem options_answered_without_gate_witness:
  "httpServer_handler (Some ''s3cret'') initial_state 0
      \<lparr>http_method = ''OPTIONS'', authorization = None,
       url = Some \<lparr>pathname = ''/mcp-sse'', searchParams = []\<rparr>\<rparr> ''sid-1''
     = (Some \<lparr>status = 204, body = NoBody\<rparr>, initial_state)
   \<and> httpServer_handler (Some ''s3cret'') initial_state 0
      \<lparr>http_method = ''OPTIONS'', authorization = Some ''Bearer wrong'',
       url = Some \<lparr>pathname = ''/mcp-sse'', searchParams = []\<rparr>\<rparr> ''sid-1''
     = httpServer_handler (Some ''s3cret'') initial_state 0
      \<lparr>http_method = ''OPTIONS'', authorization = Some ''Bearer s3cret'',
       url = Some \<lparr>pathname = ''/mcp-sse'', searchParams = []\<rparr>\<rparr> ''sid-1''"
  using options_answered_without_gate [of
      "\<lparr>http_method = ''OPTIONS'', authorization = None,
        url = Some \<lparr>pathname = ''/mcp-sse'', searchParams = []\<rparr>\<rparr>"
      "Some ''s3cret''" initial_state 0 "''sid-1''" "Some ''Bearer wrong''" "Some ''Bearer s3cret''"]
  by simp

text \<open>
  Claim C7. An authenticated \<open>POST /mcp-post\<close> with no \<open>sessionId\<close> query parameter is
  answered 400 (missing session identifier); one whose session identifier is not in the
  registry is answered 404 (unknown session). In both cases the state, and so the registry,
  is unchanged: no session is created.
\<close>

theorem post_to_unknown_session:
  assumes "fst (checkAuth E req)" "http_method req = ''POST''"
    and "url req = Some u" "pathname u = ''/mcp-post''"
  shows "(map_of (searchParams u) ''sessionId'' = None
          \<or> map_of (searchParams u) ''sessionId'' = Some [] \<longrightarrow>
            httpServer_handler E s c req sid =
              (Some \<lparr>status = 400, body = ErrorJson ''Missing sessionId query parameter''\<rparr>, s))
       \<and> (\<forall>i. map_of (searchParams u) ''sessionId'' = Some i \<and> i \<noteq> []
                \<and> activeConnections s i = None \<longrightarrow>
            httpServer_handler E s c req sid =
              (Some \<lparr>status = 404, body = ErrorJson ''Session not found or inactive''\<rparr>, s))"
  using assms by (simp add: httpServer_handler_def truthy_def or_empty_def)

theorem post_to_unknown_session_witness:
  "httpServer_handler (Some ''s3cret'') initial_state 0
      \<lparr>http_method = ''POST'', authorization = Some ''Bearer s3cret'',
       url = Some \<lparr>pathname = ''/mcp-post'', searchParams = []\<rparr>\<rparr> ''sid-1''
     = (Some \<lparr>status = 400, body = ErrorJson ''Missing sessionId query parameter''\<rparr>, initial_state)
   \<and> httpServer_handler (Some ''s3cret'') initial_state 0
      \<lparr>http_method = ''POST'', authorization = Some ''Bearer s3cret'',
       url = Some \<lparr>pathname = ''/mcp-post'', searchParams = [(''sessionId'', ''nobody'')]\<rparr>\<rparr> ''sid-1''
     = (Some \<lparr>status = 404, body = ErrorJson ''Session not found or inactive''\<rparr>, initial_state)"
proof -
  have a: "fst (checkAuth (Some ''s3cret'')
      \<lparr>http_method = ''POST'', authorization = Some ''Bearer s3cret'', url = x\<rparr>)" for x
    using bearer_token_prefixed [of "''s3cret''"] by (simp add: checkAuth_def truthy_def)
  show ?thesis
    using
      post_to_unknown_session [OF a, of
        "Some \<lparr>pathname = ''/mcp-post'', searchParams = []\<rparr>"
        "\<lparr>pathname = ''/mcp-post'', searchParams = []\<rparr>" initial_state 0 "''sid-1''"]
      post_to_unknown_session [OF a, of
        "Some \<lparr>pathname = ''/mcp-post'', searchParams = [(''sessionId'', ''nobody'')]\<rparr>"
        "\<lparr>pathname = ''/mcp-post'', searchParams = [(''sessionId'', ''nobody'')]\<rparr>"
        initial_state 0 "''sid-1''"]
    by (simp add: initial_state_def)
qed







text \<open>
  The registry has one entry per identifier: were the SDK to give two transports the same
  identifier, the second \<open>set\<close> would replace the first entry and the close of either
  connection would remove it.
\<close>

lemma same_identifier_shares_entry:
  "activeConnections
     (run (Some ''s3cret'') initial_state
        [Request 0 \<lparr>http_method = ''GET'', authorization = Some ''Bearer s3cret'',
                    url = Some \<lparr>pathname = ''/mcp-sse'', searchParams = []\<rparr>\<rparr> ''sid-1'',
         Request 1 \<lparr>http_method = ''GET'', authorization = Some ''Bearer s3cret'',
                    url = Some \<lparr>pathname = ''/mcp-sse'', searchParams = []\<rparr>\<rparr> ''sid-1'',
         StartResolved 0, StartResolved 1, ConnectResolved 0, ConnectResolved 1])
     ''sid-1'' = Some 1
   \<and> activeConnections
     (run (Some ''s3cret'') initial_state
        [Request 0 \<lparr>http_method = ''GET'', authorization = Some ''Bearer s3cret'',
                    url = Some \<lparr>pathname = ''/mcp-sse'', searchParams = []\<rparr>\<rparr> ''sid-1'',
         Request 1 \<lparr>http_method = ''GET'', authorization = Some ''Bearer s3cret'',
                    url = Some \<lparr>pathname = ''/mcp-sse'', searchParams = []\<rparr>\<rparr> ''sid-1'',
         StartResolved 0, StartResolved 1, ConnectResolved 0, ConnectResolved 1, ReqClose 0])
     ''sid-1'' = None"
  by (simp add: run_def httpServer_handler_def checkAuth_def bearer_token_def startsWith_def
      at_index_def truthy_def initial_state_def on_close_def)

end
